theory Spec2Isabelle
  imports Complex_Main "HOL-Library.Sublist"
begin

section \<open>Python values and the operations the monitor applies to them\<close>

text \<open>
  The monitor (\<^verbatim>\<open>src/youtube_monitor.py\<close>) reads JSON documents from the YouTube API and
  writes Prometheus series. A Python \<^verbatim>\<open>str\<close> is modelled as the list of its code points,
  one \<^typ>\<open>char\<close> per code point (so code points below 256). Every exception the
  interpreter or a library can raise on the values the code handles is a value of
  \<open>exn\<close>; all of them are subclasses of Python's \<^verbatim>\<open>Exception\<close>.
\<close>

datatype exn =
  RequestException | JSONDecodeError | TypeError | KeyError | IndexError
  | ValueError | AttributeError | OverflowError

text \<open>A Python float: exact value when finite (rounding to a double is not modelled).\<close>

datatype pyfloat = Fin rat | PosInf | NegInf | NaN

text \<open>
  What \<^verbatim>\<open>response.json()\<close> can return. A JSON object is the association list of the
  parsed \<^verbatim>\<open>dict\<close> (its keys are strings); lookup takes the first binding of a key.
\<close>

datatype json =
  JNull | JBool bool | JInt int | JFloat pyfloat | JStr string
  | JList "json list" | JObj "(string \<times> json) list"

text \<open>Truth value of an object, as \<^verbatim>\<open>if x:\<close> and \<^verbatim>\<open>and\<close> test it.\<close>

fun py_truth :: "json \<Rightarrow> bool" where
  "py_truth JNull = False"
| "py_truth (JBool b) = b"
| "py_truth (JInt n) = (n \<noteq> 0)"
| "py_truth (JFloat f) = (f \<noteq> Fin 0)"
| "py_truth (JStr s) = (s \<noteq> [])"
| "py_truth (JList xs) = (xs \<noteq> [])"
| "py_truth (JObj kvs) = (kvs \<noteq> [])"

text \<open>
  \<^verbatim>\<open>k in x\<close> for a string \<open>k\<close>: key membership in a dict, element membership in a list,
  substring test on a string, \<^verbatim>\<open>TypeError\<close> on everything else.
\<close>

fun py_in :: "string \<Rightarrow> json \<Rightarrow> exn + bool" where
  "py_in k (JObj kvs) = Inr (k \<in> set (map fst kvs))"
| "py_in k (JList xs) = Inr (JStr k \<in> set xs)"
| "py_in k (JStr s) = Inr (sublist k s)"
| "py_in k _ = Inl TypeError"

text \<open>\<^verbatim>\<open>x[k]\<close> for a string \<open>k\<close>: only a dict can be subscripted by a string.\<close>

fun py_item :: "json \<Rightarrow> string \<Rightarrow> exn + json" where
  "py_item (JObj kvs) k = (case map_of kvs k of None \<Rightarrow> Inl KeyError | Some v \<Rightarrow> Inr v)"
| "py_item _ k = Inl TypeError"

text \<open>\<^verbatim>\<open>x[0]\<close>: first element of a list, first character of a string.\<close>

fun py_index0 :: "json \<Rightarrow> exn + json" where
  "py_index0 (JList xs) = (case xs of [] \<Rightarrow> Inl IndexError | x # _ \<Rightarrow> Inr x)"
| "py_index0 (JStr s) = (case s of [] \<Rightarrow> Inl IndexError | c # _ \<Rightarrow> Inr (JStr [c]))"
| "py_index0 (JObj kvs) = Inl KeyError"
| "py_index0 _ = Inl TypeError"

text \<open>\<^verbatim>\<open>x.get(k, d)\<close>: only \<^verbatim>\<open>dict\<close> has the method.\<close>

fun py_get :: "json \<Rightarrow> string \<Rightarrow> json \<Rightarrow> exn + json" where
  "py_get (JObj kvs) k d = (case map_of kvs k of None \<Rightarrow> Inr d | Some v \<Rightarrow> Inr v)"
| "py_get _ k d = Inl AttributeError"

subsection \<open>\<^verbatim>\<open>int(x)\<close>\<close>

definition is_digit :: "char \<Rightarrow> bool" where
  "is_digit c \<longleftrightarrow> 48 \<le> (of_char c :: nat) \<and> (of_char c :: nat) \<le> 57"

definition digit_val :: "char \<Rightarrow> nat" where
  "digit_val c = of_char c - 48"

text \<open>The characters \<^verbatim>\<open>int\<close> skips around a literal: tab to carriage return, space,
  and the code points 133 and 160.\<close>

definition is_space :: "char \<Rightarrow> bool" where
  "is_space c \<longleftrightarrow> (of_char c :: nat) \<in> {9, 10, 11, 12, 13, 32, 133, 160}"

text \<open>
  Digits with single underscores between them, read from the left. \<^verbatim>\<open>int\<close> on a string
  takes surrounding white space, a sign and such digits, and refuses more than 4300
  digits (the interpreter's default limit).
\<close>

fun digits_acc :: "nat \<Rightarrow> string \<Rightarrow> nat option" where
  "digits_acc acc [] = None"
| "digits_acc acc [c] = (if is_digit c then Some (10 * acc + digit_val c) else None)"
| "digits_acc acc (c # d # cs) =
     (if \<not> is_digit c then None
      else if is_digit d then digits_acc (10 * acc + digit_val c) (d # cs)
      else if d = CHR ''_'' then digits_acc (10 * acc + digit_val c) cs
      else None)"

definition int_of_str :: "string \<Rightarrow> exn + int" where
  "int_of_str s =
     (let t = rev (dropWhile is_space (rev (dropWhile is_space s)));
          (neg, body) = (case t of
                            c # cs \<Rightarrow> if c = CHR ''-'' then (True, cs)
                                      else if c = CHR ''+'' then (False, cs)
                                      else (False, t)
                          | [] \<Rightarrow> (False, t))
      in case digits_acc 0 body of
           None \<Rightarrow> Inl ValueError
         | Some n \<Rightarrow>
             if length (filter is_digit body) > 4300 then Inl ValueError
             else Inr (if neg then - int n else int n))"

text \<open>Truncation toward zero, as \<^verbatim>\<open>int\<close> does on a float.\<close>

definition trunc :: "rat \<Rightarrow> int" where
  "trunc r = (if 0 \<le> r then \<lfloor>r\<rfloor> else \<lceil>r\<rceil>)"

fun py_int :: "json \<Rightarrow> exn + int" where
  "py_int (JInt n) = Inr n"
| "py_int (JBool b) = Inr (if b then 1 else 0)"
| "py_int (JStr s) = int_of_str s"
| "py_int (JFloat (Fin r)) = Inr (trunc r)"
| "py_int (JFloat NaN) = Inl ValueError"
| "py_int (JFloat _) = Inl OverflowError"
| "py_int _ = Inl TypeError"

subsection \<open>\<^verbatim>\<open>float(n)\<close>, \<^verbatim>\<open>str(x)\<close> and slicing\<close>

text \<open>
  \<^verbatim>\<open>Gauge.set(v)\<close> stores \<^verbatim>\<open>float(v)\<close>. On an \<^verbatim>\<open>int\<close> that rounds to \<open>2 ^ 1024\<close> or
  beyond the conversion raises \<^verbatim>\<open>OverflowError\<close>; otherwise the model keeps the exact
  value.
\<close>

definition in_float_range :: "int \<Rightarrow> bool" where
  "in_float_range n \<longleftrightarrow> \<bar>n\<bar> < 2 ^ 1024 - 2 ^ 970"

definition py_float :: "int \<Rightarrow> exn + rat" where
  "py_float n = (if in_float_range n then Inr (of_int n) else Inl OverflowError)"

function nat_digits :: "nat \<Rightarrow> string" where
  "nat_digits n =
     (if n < 10 then [char_of (48 + n)]
      else nat_digits (n div 10) @ [char_of (48 + n mod 10)])"
  by pat_completeness auto
termination
  by (relation "measure id") auto

definition str_of_int :: "int \<Rightarrow> string" where
  "str_of_int n = (if n < 0 then CHR ''-'' # nat_digits (nat (- n)) else nat_digits (nat n))"

definition str_of_bool :: "bool \<Rightarrow> string" where
  "str_of_bool b = (if b then ''True'' else ''False'')"

text \<open>\<^verbatim>\<open>x[:100] + '...'\<close>: the slice of a list is a list, which cannot be added to a
  string; nothing but a string or a list can be sliced.\<close>

fun slice100_dots :: "json \<Rightarrow> exn + json" where
  "slice100_dots (JStr s) = Inr (JStr (take 100 s @ ''...''))"
| "slice100_dots _ = Inl TypeError"

text \<open>Sequencing of computations that may raise: the first exception wins.\<close>

definition and_then :: "exn + 'a \<Rightarrow> ('a \<Rightarrow> exn + 'b) \<Rightarrow> exn + 'b" where
  "and_then m f = (case m of Inl e \<Rightarrow> Inl e | Inr a \<Rightarrow> f a)"

section \<open>The metrics registry: class \<^verbatim>\<open>YouTubeMetrics\<close>\<close>

text \<open>
  A labelled metric is a family of series, one per tuple of label values, in the order the
  metric declares its label names:
  \<^item> \<open>labels5\<close>: \<open>(channel_id, stream, video_id, channel_name, environment)\<close>;
  \<^item> \<open>labels4\<close>: \<open>(channel_id, stream, video_id, channel_name)\<close>;
  \<^item> \<open>labels3\<close>: \<open>(channel_id, stream, channel_name)\<close>;
  \<^item> \<open>channel_info\<close>: \<open>(channel_id, channel_name)\<close>; \<open>video_info\<close>:
    \<open>(video_id, channel_id, stream)\<close>.
  A family is a map from label tuples to values; a series that \<^verbatim>\<open>labels(...)\<close> has not yet
  created is absent (\<open>None\<close>). Gauges hold exact rationals, counters integers, an info
  metric the dictionary last passed to \<^verbatim>\<open>info\<close>.
\<close>

type_synonym labels5 = "string \<times> string \<times> string \<times> string \<times> string"
type_synonym labels4 = "string \<times> string \<times> string \<times> string"
type_synonym labels3 = "string \<times> string \<times> string"
type_synonym labels2 = "string \<times> string"
type_synonym info = "(string \<times> json) list"

record youtube_metrics =
  stream_status :: "labels5 \<rightharpoonup> rat"
  stream_viewers :: "labels4 \<rightharpoonup> rat"
  video_views :: "labels4 \<rightharpoonup> rat"
  video_likes :: "labels4 \<rightharpoonup> rat"
  video_comments :: "labels4 \<rightharpoonup> rat"
  video_favorites :: "labels4 \<rightharpoonup> rat"
  engagement_rate :: "labels4 \<rightharpoonup> rat"
  channel_subscribers :: "labels3 \<rightharpoonup> rat"
  check_count :: "labels4 \<rightharpoonup> int"
  error_count :: "labels4 \<rightharpoonup> int"
  api_errors :: "labels4 \<rightharpoonup> int"
  channel_info :: "labels2 \<rightharpoonup> info"
  video_info :: "labels3 \<rightharpoonup> info"
  registered_streams :: "string set"

text \<open>\<^verbatim>\<open>YouTubeMetrics.__init__\<close>: every family declared, no series yet, no stream registered.\<close>

definition youtube_metrics_init :: youtube_metrics where
  "youtube_metrics_init =
     \<lparr>stream_status = Map.empty, stream_viewers = Map.empty, video_views = Map.empty,
      video_likes = Map.empty, video_comments = Map.empty, video_favorites = Map.empty,
      engagement_rate = Map.empty, channel_subscribers = Map.empty,
      check_count = Map.empty, error_count = Map.empty, api_errors = Map.empty,
      channel_info = Map.empty, video_info = Map.empty, registered_streams = {}\<rparr>"

text \<open>The value a series shows; \<^verbatim>\<open>labels(...)\<close> creates a series at 0.\<close>

definition counter_value :: "('l \<rightharpoonup> int) \<Rightarrow> 'l \<Rightarrow> int" where
  "counter_value c l = (case c l of None \<Rightarrow> 0 | Some v \<Rightarrow> v)"

definition gauge_value :: "('l \<rightharpoonup> rat) \<Rightarrow> 'l \<Rightarrow> rat" where
  "gauge_value c l = (case c l of None \<Rightarrow> 0 | Some v \<Rightarrow> v)"

text \<open>
  \<^verbatim>\<open>counter.labels(**l).inc(amount)\<close>. The library raises on a negative amount; the code
  passes only the literal 0 and the default 1, so the model has no such branch.
\<close>

definition inc :: "'l \<Rightarrow> int \<Rightarrow> ('l \<rightharpoonup> int) \<Rightarrow> ('l \<rightharpoonup> int)" where
  "inc l amount c = c(l \<mapsto> counter_value c l + amount)"

text \<open>\<^verbatim>\<open>metric.labels(**l)\<close> creates the series, at its initial value, when it is absent.\<close>

definition labels_child :: "'l \<Rightarrow> 'v \<Rightarrow> ('l \<rightharpoonup> 'v) \<Rightarrow> ('l \<rightharpoonup> 'v)" where
  "labels_child l initial m = (case m l of None \<Rightarrow> m(l \<mapsto> initial) | Some _ \<Rightarrow> m)"

text \<open>
  \<^verbatim>\<open>gauge.labels(**l).set(n)\<close> for an \<^verbatim>\<open>int\<close> \<open>n\<close>. The conversion to float may raise, and
  then \<^verbatim>\<open>labels\<close> has already run: the result is the exception, if any, and the family.
\<close>

definition gauge_set_int :: "'l \<Rightarrow> int \<Rightarrow> ('l \<rightharpoonup> rat) \<Rightarrow> exn option \<times> ('l \<rightharpoonup> rat)" where
  "gauge_set_int l n m =
     (case py_float n of
        Inl e \<Rightarrow> (Some e, labels_child l 0 m)
      | Inr v \<Rightarrow> (None, m(l \<mapsto> v)))"

text \<open>
  \<^verbatim>\<open>initialize_counters\<close> (lines 147-158): the three \<^verbatim>\<open>inc(0)\<close> create the series and leave
  an existing value as it is. Nothing in its \<^verbatim>\<open>try\<close> block raises.
\<close>

definition initialize_counters :: "labels4 \<Rightarrow> youtube_metrics \<Rightarrow> youtube_metrics" where
  "initialize_counters labels g =
     (let g1 = g\<lparr>api_errors := inc labels 0 (api_errors g)\<rparr>;
          g2 = g1\<lparr>check_count := inc labels 0 (check_count g1)\<rparr>
      in g2\<lparr>error_count := inc labels 0 (error_count g2)\<rparr>)"

text \<open>\<^verbatim>\<open>register_stream\<close> (lines 100-145).\<close>

definition stream_key :: "string \<Rightarrow> string \<Rightarrow> string \<Rightarrow> string" where
  "stream_key channel_id video_id stream_name =
     channel_id @ ''_'' @ video_id @ ''_'' @ stream_name"

definition register_stream ::
  "string \<Rightarrow> string \<Rightarrow> string \<Rightarrow> string \<Rightarrow> string \<Rightarrow> youtube_metrics \<Rightarrow> youtube_metrics" where
  "register_stream channel_id video_id stream_name channel_name environment g =
     (if stream_key channel_id video_id stream_name \<in> registered_streams g then g
      else
        let base_labels = (channel_id, stream_name, video_id, channel_name);
            status_labels = (channel_id, stream_name, video_id, channel_name, environment);
            channel_labels = (channel_id, stream_name, channel_name);
            g1 = g\<lparr>stream_status := (stream_status g)(status_labels \<mapsto> 0),
                   stream_viewers := (stream_viewers g)(base_labels \<mapsto> 0),
                   video_views := (video_views g)(base_labels \<mapsto> 0),
                   video_likes := (video_likes g)(base_labels \<mapsto> 0),
                   video_comments := (video_comments g)(base_labels \<mapsto> 0),
                   video_favorites := (video_favorites g)(base_labels \<mapsto> 0),
                   engagement_rate := (engagement_rate g)(base_labels \<mapsto> 0),
                   channel_subscribers := (channel_subscribers g)(channel_labels \<mapsto> 0)\<rparr>;
            g2 = initialize_counters base_labels g1
        in g2\<lparr>registered_streams :=
                 insert (stream_key channel_id video_id stream_name) (registered_streams g2)\<rparr>)"

section \<open>The worker: class \<^verbatim>\<open>YouTubeMonitor\<close>\<close>

record youtube_monitor =
  channel_id :: string
  video_id :: string
  api_key :: string
  stream_name :: string
  channel_name :: string
  environment :: string

definition base_labels :: "youtube_monitor \<Rightarrow> labels4" where
  "base_labels w = (channel_id w, stream_name w, video_id w, channel_name w)"

definition status_labels :: "youtube_monitor \<Rightarrow> labels5" where
  "status_labels w = (channel_id w, stream_name w, video_id w, channel_name w, environment w)"

definition channel_labels :: "youtube_monitor \<Rightarrow> labels3" where
  "channel_labels w = (channel_id w, stream_name w, channel_name w)"

text \<open>
  \<^verbatim>\<open>YouTubeMonitor.__init__\<close> (lines 163-215). The registry is shared, so the model passes
  it in and out; \<open>None\<close> for the \<^verbatim>\<open>metrics\<close> argument builds a new one.
\<close>

definition youtube_monitor_init ::
  "string \<Rightarrow> string \<Rightarrow> string \<Rightarrow> string \<Rightarrow> string \<Rightarrow> string \<Rightarrow> youtube_metrics option
   \<Rightarrow> youtube_monitor \<times> youtube_metrics" where
  "youtube_monitor_init cid vid key sname cname env metrics =
     (let w = \<lparr>channel_id = cid, video_id = vid, api_key = key, stream_name = sname,
               channel_name = cname, environment = env\<rparr>;
          g = (case metrics of Some m \<Rightarrow> m | None \<Rightarrow> youtube_metrics_init);
          g1 = register_stream cid vid sname cname env g
      in (w, g1\<lparr>channel_info := (channel_info g1)((cid, cname) \<mapsto>
                   [(''stream_name'', JStr sname), (''environment'', JStr env)])\<rparr>))"

subsection \<open>Reading the API response\<close>

text \<open>
  Each operation evaluates \<^verbatim>\<open>requests.get(url, timeout=10)\<close> and then
  \<^verbatim>\<open>response.json()\<close>. The model takes what the two evaluate to as the argument
  \<open>resp :: exn + json\<close>: \<open>Inl e\<close> when either raises (connection error, timeout,
  a body that is not JSON), \<open>Inr data\<close> otherwise. The argument \<open>now\<close> is what
  \<^verbatim>\<open>time.strftime\<close> returns. Console output (\<^verbatim>\<open>print\<close>) is not modelled.

  The guard \<^verbatim>\<open>if 'items' in data and data['items']:\<close> and the read \<^verbatim>\<open>data['items'][0]\<close>
  under it, common to the three operations: \<open>None\<close> when the guard is false.
\<close>

definition first_item :: "json \<Rightarrow> exn + json option" where
  "first_item data =
     and_then (py_in ''items'' data) (\<lambda>has_items.
       if \<not> has_items then Inr None
       else and_then (py_item data ''items'') (\<lambda>items.
         if \<not> py_truth items then Inr None
         else and_then (py_index0 items) (\<lambda>item. Inr (Some item))))"

text \<open>Lines 235-240: \<open>(is_live, video_title)\<close> from the item's snippet.\<close>

definition snippet_fields :: "json \<Rightarrow> exn + bool \<times> json" where
  "snippet_fields item =
     and_then (py_in ''snippet'' item) (\<lambda>has_snippet.
       if \<not> has_snippet then Inr (False, JStr [])
       else and_then (py_item item ''snippet'') (\<lambda>snippet.
         and_then (py_get snippet ''liveBroadcastContent'' JNull) (\<lambda>content.
           and_then (py_get snippet ''title'' (JStr ''No title'')) (\<lambda>video_title.
             Inr (content = JStr ''live'', video_title)))))"

text \<open>Lines 243-244: \<open>viewer_count\<close>.\<close>

definition viewer_count_of :: "json \<Rightarrow> exn + int" where
  "viewer_count_of item =
     and_then (py_in ''liveStreamingDetails'' item) (\<lambda>has_details.
       if \<not> has_details then Inr 0
       else and_then (py_item item ''liveStreamingDetails'') (\<lambda>details.
         and_then (py_in ''concurrentViewers'' details) (\<lambda>has_viewers.
           if \<not> has_viewers then Inr 0
           else and_then (py_item details ''concurrentViewers'') py_int)))"

text \<open>Lines 228-244: \<open>(is_live, viewer_count, video_title)\<close>.\<close>

definition stream_state :: "json \<Rightarrow> exn + bool \<times> int \<times> json" where
  "stream_state data =
     and_then (first_item data) (\<lambda>first.
       case first of
         None \<Rightarrow> Inr (False, 0, JStr [])
       | Some item \<Rightarrow>
           and_then (snippet_fields item) (\<lambda>(is_live, video_title).
             and_then (viewer_count_of item) (\<lambda>viewer_count.
               Inr (is_live, viewer_count, video_title))))"

subsection \<open>\<^verbatim>\<open>check_stream_status\<close> (lines 217-280)\<close>

text \<open>
  The body of the \<^verbatim>\<open>try\<close> block. It returns the registry as the block left it, with
  \<open>Inl e\<close> when an exception left the block and \<open>Inr\<close> the returned tuple otherwise.
\<close>

definition check_stream_status_try ::
  "youtube_monitor \<Rightarrow> string \<Rightarrow> exn + json \<Rightarrow> youtube_metrics
   \<Rightarrow> (exn + bool \<times> int \<times> json) \<times> youtube_metrics" where
  "check_stream_status_try w now resp g =
     (let g1 = g\<lparr>check_count := inc (base_labels w) 1 (check_count g)\<rparr>
      in case and_then resp stream_state of
           Inl e \<Rightarrow> (Inl e, g1)
         | Inr (is_live, viewer_count, video_title) \<Rightarrow>
             let g2 = g1\<lparr>video_info := (video_info g1)
                         ((video_id w, channel_id w, stream_name w) \<mapsto>
                            [(''title'', video_title),
                             (''is_live'', JStr (str_of_bool is_live)),
                             (''last_updated'', JStr now)])\<rparr>;
                 g3 = g2\<lparr>stream_status := (stream_status g2)
                         (status_labels w \<mapsto> (if is_live then 1 else 0))\<rparr>
             in case gauge_set_int (base_labels w) viewer_count (stream_viewers g3) of
                  (Some e, viewers) \<Rightarrow> (Inl e, g3\<lparr>stream_viewers := viewers\<rparr>)
                | (None, viewers) \<Rightarrow>
                    let g4 = g3\<lparr>stream_viewers := viewers\<rparr>;
                        g5 = (if \<not> is_live
                              then g4\<lparr>error_count := inc (base_labels w) 1 (error_count g4)\<rparr>
                              else g4)
                    in (Inr (is_live, viewer_count, video_title), g5))"

text \<open>The whole function: the \<^verbatim>\<open>except Exception\<close> handler takes over from the block.\<close>

definition check_stream_status ::
  "youtube_monitor \<Rightarrow> string \<Rightarrow> exn + json \<Rightarrow> youtube_metrics
   \<Rightarrow> (exn + bool \<times> int \<times> json) \<times> youtube_metrics" where
  "check_stream_status w now resp g =
     (case check_stream_status_try w now resp g of
        (Inr result, g') \<Rightarrow> (Inr result, g')
      | (Inl e, g') \<Rightarrow>
          let g1 = g'\<lparr>stream_status := (stream_status g')(status_labels w \<mapsto> 0)\<rparr>;
              g2 = g1\<lparr>error_count := inc (base_labels w) 1 (error_count g1)\<rparr>;
              g3 = g2\<lparr>api_errors := inc (base_labels w) 1 (api_errors g2)\<rparr>
          in (Inr (False, 0, JStr []), g3))"

subsection \<open>\<^verbatim>\<open>get_video_engagement\<close> (lines 282-319)\<close>

text \<open>Lines 291-297: \<open>(views, likes, comments, favorites)\<close> of the first item.\<close>

definition int_field :: "json \<Rightarrow> string \<Rightarrow> exn + int" where
  "int_field stats k = and_then (py_get stats k (JInt 0)) py_int"

definition statistics_of :: "json \<Rightarrow> exn + int \<times> int \<times> int \<times> int" where
  "statistics_of item =
     and_then (py_item item ''statistics'') (\<lambda>stats.
       and_then (int_field stats ''viewCount'') (\<lambda>views.
         and_then (int_field stats ''likeCount'') (\<lambda>likes.
           and_then (int_field stats ''commentCount'') (\<lambda>comments.
             and_then (int_field stats ''favoriteCount'') (\<lambda>favorites.
               Inr (views, likes, comments, favorites))))))"

text \<open>
  Lines 299-312, from the first \<^verbatim>\<open>set\<close> to the \<^verbatim>\<open>return\<close>. The quotient
  \<^verbatim>\<open>(likes / views) * 100\<close> is computed exactly.
\<close>

definition update_engagement ::
  "youtube_monitor \<Rightarrow> int \<times> int \<times> int \<times> int \<Rightarrow> youtube_metrics
   \<Rightarrow> (exn + int \<times> int \<times> int) \<times> youtube_metrics" where
  "update_engagement w stats g =
     (case stats of (views, likes, comments, favorites) \<Rightarrow>
      case gauge_set_int (base_labels w) views (video_views g) of
        (Some e, m1) \<Rightarrow> (Inl e, g\<lparr>video_views := m1\<rparr>)
      | (None, m1) \<Rightarrow>
      let g1 = g\<lparr>video_views := m1\<rparr> in
      case gauge_set_int (base_labels w) likes (video_likes g1) of
        (Some e, m2) \<Rightarrow> (Inl e, g1\<lparr>video_likes := m2\<rparr>)
      | (None, m2) \<Rightarrow>
      let g2 = g1\<lparr>video_likes := m2\<rparr> in
      case gauge_set_int (base_labels w) comments (video_comments g2) of
        (Some e, m3) \<Rightarrow> (Inl e, g2\<lparr>video_comments := m3\<rparr>)
      | (None, m3) \<Rightarrow>
      let g3 = g2\<lparr>video_comments := m3\<rparr> in
      case gauge_set_int (base_labels w) favorites (video_favorites g3) of
        (Some e, m4) \<Rightarrow> (Inl e, g3\<lparr>video_favorites := m4\<rparr>)
      | (None, m4) \<Rightarrow>
      let g4 = g3\<lparr>video_favorites := m4\<rparr>;
          g5 = (if views > 0
                then g4\<lparr>engagement_rate := (engagement_rate g4)
                          (base_labels w \<mapsto> (of_int likes / of_int views) * 100)\<rparr>
                else g4)
      in (Inr (views, likes, comments), g5))"

text \<open>
  The body of the \<^verbatim>\<open>try\<close> block. When the guard on \<^verbatim>\<open>items\<close> is false the block ends
  without a \<^verbatim>\<open>return\<close> and the function returns Python's \<^verbatim>\<open>None\<close>: the result \<open>None\<close>.
\<close>

definition get_video_engagement_try ::
  "youtube_monitor \<Rightarrow> string \<Rightarrow> exn + json \<Rightarrow> youtube_metrics
   \<Rightarrow> (exn + (int \<times> int \<times> int) option) \<times> youtube_metrics" where
  "get_video_engagement_try w now resp g =
     (case and_then resp first_item of
        Inl e \<Rightarrow> (Inl e, g)
      | Inr None \<Rightarrow> (Inr None, g)
      | Inr (Some item) \<Rightarrow>
          (case statistics_of item of
             Inl e \<Rightarrow> (Inl e, g)
           | Inr stats \<Rightarrow>
               (case update_engagement w stats g of
                  (Inl e, g') \<Rightarrow> (Inl e, g')
                | (Inr result, g') \<Rightarrow> (Inr (Some result), g'))))"

definition get_video_engagement ::
  "youtube_monitor \<Rightarrow> string \<Rightarrow> exn + json \<Rightarrow> youtube_metrics
   \<Rightarrow> (exn + (int \<times> int \<times> int) option) \<times> youtube_metrics" where
  "get_video_engagement w now resp g =
     (case get_video_engagement_try w now resp g of
        (Inr result, g') \<Rightarrow> (Inr result, g')
      | (Inl e, g') \<Rightarrow>
          (Inr (Some (0, 0, 0)),
           g'\<lparr>api_errors := inc (base_labels w) 1 (api_errors g')\<rparr>))"

subsection \<open>\<^verbatim>\<open>get_channel_info\<close> (lines 321-360)\<close>

text \<open>Lines 331-335: \<open>(snippet, subscriber_count)\<close> of the first item.\<close>

definition channel_fields :: "json \<Rightarrow> exn + json \<times> int" where
  "channel_fields item =
     and_then (py_item item ''statistics'') (\<lambda>stats.
       and_then (py_get item ''snippet'' (JObj [])) (\<lambda>snippet.
         and_then (int_field stats ''subscriberCount'') (\<lambda>subscriber_count.
           Inr (snippet, subscriber_count))))"

text \<open>Lines 344-349: the dictionary passed to \<^verbatim>\<open>info\<close>.\<close>

definition channel_record :: "json \<Rightarrow> int \<Rightarrow> string \<Rightarrow> exn + info" where
  "channel_record snippet subscriber_count now =
     and_then (py_get snippet ''title'' (JStr [])) (\<lambda>title.
       and_then (py_get snippet ''description'' (JStr [])) (\<lambda>description.
         and_then (slice100_dots description) (\<lambda>short.
           Inr [(''title'', title),
                (''description'', short),
                (''subscriber_count'', JStr (str_of_int subscriber_count)),
                (''last_updated'', JStr now)])))"

definition get_channel_info_try ::
  "youtube_monitor \<Rightarrow> string \<Rightarrow> exn + json \<Rightarrow> youtube_metrics
   \<Rightarrow> (exn + int option) \<times> youtube_metrics" where
  "get_channel_info_try w now resp g =
     (case and_then resp first_item of
        Inl e \<Rightarrow> (Inl e, g)
      | Inr None \<Rightarrow> (Inr None, g)
      | Inr (Some item) \<Rightarrow>
          (case channel_fields item of
             Inl e \<Rightarrow> (Inl e, g)
           | Inr (snippet, subscriber_count) \<Rightarrow>
               (case gauge_set_int (channel_labels w) subscriber_count
                       (channel_subscribers g) of
                  (Some e, subscribers) \<Rightarrow> (Inl e, g\<lparr>channel_subscribers := subscribers\<rparr>)
                | (None, subscribers) \<Rightarrow>
                    let g1 = g\<lparr>channel_subscribers := subscribers\<rparr>
                    in (case channel_record snippet subscriber_count now of
                          Inl e \<Rightarrow>
                            (Inl e, g1\<lparr>channel_info :=
                               labels_child (channel_id w, channel_name w) [] (channel_info g1)\<rparr>)
                        | Inr entries \<Rightarrow>
                            (Inr (Some subscriber_count),
                             g1\<lparr>channel_info := (channel_info g1)
                                  ((channel_id w, channel_name w) \<mapsto> entries)\<rparr>)))))"

definition get_channel_info ::
  "youtube_monitor \<Rightarrow> string \<Rightarrow> exn + json \<Rightarrow> youtube_metrics
   \<Rightarrow> (exn + int option) \<times> youtube_metrics" where
  "get_channel_info w now resp g =
     (case get_channel_info_try w now resp g of
        (Inr result, g') \<Rightarrow> (Inr result, g')
      | (Inl e, g') \<Rightarrow>
          (Inr (Some 0), g'\<lparr>api_errors := inc (base_labels w) 1 (api_errors g')\<rparr>))"

subsection \<open>\<^verbatim>\<open>monitor_loop\<close> (lines 362-383)\<close>

datatype call = CheckStreamStatus | GetVideoEngagement | GetChannelInfo

text \<open>
  A method call as the loop makes it: the returned value is dropped, an exception that
  leaves the method would leave the loop.
\<close>

fun perform ::
  "call \<Rightarrow> youtube_monitor \<Rightarrow> string \<Rightarrow> exn + json \<Rightarrow> youtube_metrics
   \<Rightarrow> (exn + unit) \<times> youtube_metrics" where
  "perform CheckStreamStatus w now resp g =
     (case check_stream_status w now resp g of (r, g') \<Rightarrow> (map_sum id (\<lambda>_. ()) r, g'))"
| "perform GetVideoEngagement w now resp g =
     (case get_video_engagement w now resp g of (r, g') \<Rightarrow> (map_sum id (\<lambda>_. ()) r, g'))"
| "perform GetChannelInfo w now resp g =
     (case get_channel_info w now resp g of (r, g') \<Rightarrow> (map_sum id (\<lambda>_. ()) r, g'))"



type_synonym environment = "nat \<Rightarrow> call \<Rightarrow> string \<times> (exn + json)"





text \<open>The values of \<open>count\<close> at which a log shows the call \<open>c\<close>.\<close>

definition ticks_of :: "call \<Rightarrow> (nat \<times> call) list \<Rightarrow> nat list" where
  "ticks_of c calls = map fst (filter (\<lambda>entry. snd entry = c) calls)"


section \<open>Sequences of operations on a shared registry\<close>

text \<open>
  What a program built from the two classes can do to a registry: register a stream,
  construct a monitor on the registry, call one of a monitor's three methods.
\<close>

datatype op =
  Register string string string string string
  | Construct string string string string string string
  | Call call youtube_monitor string "exn + json"

fun apply_op :: "op \<Rightarrow> youtube_metrics \<Rightarrow> youtube_metrics" where
  "apply_op (Register cid vid sname cname env) g = register_stream cid vid sname cname env g"
| "apply_op (Construct cid vid key sname cname env) g =
     snd (youtube_monitor_init cid vid key sname cname env (Some g))"
| "apply_op (Call c w now resp) g = snd (perform c w now resp g)"

fun run :: "op list \<Rightarrow> youtube_metrics \<Rightarrow> youtube_metrics" where
  "run [] g = g"
| "run (x # xs) g = run xs (apply_op x g)"

text \<open>
  A method can only be called on a monitor that has been constructed: \<open>constructed ws ops\<close>
  holds when every call in \<open>ops\<close> is on a monitor of \<open>ws\<close> or on one that an earlier
  operation of \<open>ops\<close> constructs.
\<close>

fun constructed :: "youtube_monitor list \<Rightarrow> op list \<Rightarrow> bool" where
  "constructed ws [] = True"
| "constructed ws (Register cid vid sname cname env # ops) = constructed ws ops"
| "constructed ws (Construct cid vid key sname cname env # ops) =
     constructed (fst (youtube_monitor_init cid vid key sname cname env None) # ws) ops"
| "constructed ws (Call c w now resp # ops) = (w \<in> set ws \<and> constructed ws ops)"

text \<open>The calls of \<open>check_stream_status\<close> in \<open>ops\<close> that write the series \<open>l\<close>.\<close>

fun checks_series :: "labels4 \<Rightarrow> op \<Rightarrow> bool" where
  "checks_series l (Call CheckStreamStatus w now resp) = (base_labels w = l)"
| "checks_series l _ = False"


text \<open>The series of the three counters an operation writes.\<close>

fun op_series :: "op \<Rightarrow> labels4" where
  "op_series (Register cid vid sname cname env) = (cid, sname, vid, cname)"
| "op_series (Construct cid vid key sname cname env) = (cid, sname, vid, cname)"
| "op_series (Call c w now resp) = base_labels w"

text \<open>
  Two notions for the proofs. A counter family takes a step at the series \<open>l\<close> when it is
  unchanged or results from an \<^verbatim>\<open>inc\<close> at \<open>l\<close> by a non-negative amount. In a registry with
  \<open>counters_registered\<close>, every counter series present belongs to a registered stream.
\<close>

definition counter_step :: "'l \<Rightarrow> ('l \<rightharpoonup> int) \<Rightarrow> ('l \<rightharpoonup> int) \<Rightarrow> bool" where
  "counter_step l c c' \<longleftrightarrow> c' = c \<or> (\<exists>a\<ge>0. c' = inc l a c)"

definition series_key :: "labels4 \<Rightarrow> string" where
  "series_key l = (case l of (cid, sname, vid, cname) \<Rightarrow> stream_key cid vid sname)"

definition counters_registered :: "youtube_metrics \<Rightarrow> bool" where
  "counters_registered g \<longleftrightarrow>
     (\<forall>l \<in> dom (check_count g) \<union> dom (error_count g) \<union> dom (api_errors g).
        series_key l \<in> registered_streams g)"

section \<open>Example inputs\<close>

text \<open>A monitor as \<^verbatim>\<open>main\<close> configures one, its registry after construction, and answers of the API.\<close>

definition example_monitor :: youtube_monitor where
  "example_monitor =
     fst (youtube_monitor_init ''UC1'' ''vid1'' ''key1'' ''CHANNEL-1'' ''TEST_Master''
            ''Production'' None)"

definition example_registry :: youtube_metrics where
  "example_registry =
     snd (youtube_monitor_init ''UC1'' ''vid1'' ''key1'' ''CHANNEL-1'' ''TEST_Master''
            ''Production'' None)"

definition live_response :: json where
  "live_response =
     JObj [(''items'', JList [JObj
       [(''snippet'', JObj [(''liveBroadcastContent'', JStr ''live''), (''title'', JStr ''Show'')]),
        (''liveStreamingDetails'', JObj [(''concurrentViewers'', JStr ''42'')])]])]"

definition offline_response :: json where
  "offline_response =
     JObj [(''items'', JList [JObj
       [(''snippet'', JObj [(''liveBroadcastContent'', JStr ''none''), (''title'', JStr ''Show'')])]])]"

definition statistics_response :: json where
  "statistics_response =
     JObj [(''items'', JList [JObj
       [(''statistics'', JObj [(''viewCount'', JStr ''200''), (''likeCount'', JStr ''10''),
                               (''commentCount'', JStr ''3''), (''favoriteCount'', JStr ''0'')])]])]"


definition empty_response :: json where
  "empty_response = JObj [(''items'', JList [])]"


text \<open>The example registry after one successful \<^verbatim>\<open>get_video_engagement\<close>.\<close>

definition polled_registry :: youtube_metrics where
  "polled_registry =
     snd (get_video_engagement example_monitor ''2026-01-01 00:00:00''
            (Inr statistics_response) example_registry)"


section \<open>Counters\<close>

lemma counter_value_inc:
  "counter_value (inc l a c) l' = (if l' = l then counter_value c l + a else counter_value c l')"
  by (simp add: inc_def counter_value_def)

lemma snd_perform:
  "snd (perform CheckStreamStatus w now resp g) = snd (check_stream_status w now resp g)"
  "snd (perform GetVideoEngagement w now resp g) = snd (get_video_engagement w now resp g)"
  "snd (perform GetChannelInfo w now resp g) = snd (get_channel_info w now resp g)"
  by (simp_all split: prod.splits)

lemma counter_step_refl: "counter_step l c c"
  by (simp add: counter_step_def)

lemma counter_step_inc: "0 \<le> a \<Longrightarrow> counter_step l c (inc l a c)"
  by (auto simp: counter_step_def)

lemma counter_step_mono: "counter_step l c c' \<Longrightarrow> counter_value c k \<le> counter_value c' k"
  by (auto simp: counter_step_def counter_value_inc)

lemma counter_step_dom: "counter_step l c c' \<Longrightarrow> dom c' \<subseteq> insert l (dom c)"
  by (auto simp: counter_step_def inc_def)

text \<open>What the \<^verbatim>\<open>try\<close> block of \<^verbatim>\<open>check_stream_status\<close> does to the counters.\<close>

lemma try_block_counters:
  assumes "check_stream_status_try w now resp g = (r, g')"
  shows "check_count g' = inc (base_labels w) 1 (check_count g)"
    and "api_errors g' = api_errors g"
    and "error_count g' =
          (case r of Inr (False, _, _) \<Rightarrow> inc (base_labels w) 1 (error_count g)
                   | _ \<Rightarrow> error_count g)"
    and "registered_streams g' = registered_streams g"
  using assms
  by (auto simp: check_stream_status_try_def Let_def
      split: sum.splits prod.splits option.splits if_splits)

lemma check_count_status:
  "check_count (snd (check_stream_status w now resp g)) = inc (base_labels w) 1 (check_count g)"
proof -
  obtain r g' where t: "check_stream_status_try w now resp g = (r, g')"
    by (cases "check_stream_status_try w now resp g")
  from try_block_counters(1) [OF t] t show ?thesis
    by (auto simp: check_stream_status_def Let_def split: sum.splits)
qed

lemma status_steps:
  "counter_step (base_labels w) (check_count g)
     (check_count (snd (check_stream_status w now resp g)))"
  "counter_step (base_labels w) (error_count g)
     (error_count (snd (check_stream_status w now resp g)))"
  "counter_step (base_labels w) (api_errors g)
     (api_errors (snd (check_stream_status w now resp g)))"
  "registered_streams (snd (check_stream_status w now resp g)) = registered_streams g"
proof -
  obtain r g' where t: "check_stream_status_try w now resp g = (r, g')"
    by (cases "check_stream_status_try w now resp g")
  note c = try_block_counters [OF t]
  show "counter_step (base_labels w) (check_count g)
      (check_count (snd (check_stream_status w now resp g)))"
    by (simp add: check_count_status counter_step_inc)
  show "counter_step (base_labels w) (error_count g)
      (error_count (snd (check_stream_status w now resp g)))"
    using t c
    by (auto simp: check_stream_status_def Let_def counter_step_inc counter_step_refl
        split: sum.splits bool.splits)
  show "counter_step (base_labels w) (api_errors g)
      (api_errors (snd (check_stream_status w now resp g)))"
    using t c
    by (auto simp: check_stream_status_def Let_def counter_step_inc counter_step_refl
        split: sum.splits)
  show "registered_streams (snd (check_stream_status w now resp g)) = registered_streams g"
    using t c by (auto simp: check_stream_status_def Let_def split: sum.splits)
qed

lemma engagement_try_counters:
  assumes "get_video_engagement_try w now resp g = (r, g')"
  shows "check_count g' = check_count g" "error_count g' = error_count g"
    "api_errors g' = api_errors g" "registered_streams g' = registered_streams g"
  using assms
  by (auto simp: get_video_engagement_try_def update_engagement_def Let_def
      split: sum.splits prod.splits option.splits if_splits)

lemma engagement_steps:
  "check_count (snd (get_video_engagement w now resp g)) = check_count g"
  "error_count (snd (get_video_engagement w now resp g)) = error_count g"
  "counter_step (base_labels w) (api_errors g)
     (api_errors (snd (get_video_engagement w now resp g)))"
  "registered_streams (snd (get_video_engagement w now resp g)) = registered_streams g"
proof -
  obtain r g' where t: "get_video_engagement_try w now resp g = (r, g')"
    by (cases "get_video_engagement_try w now resp g")
  note c = engagement_try_counters [OF t]
  show "check_count (snd (get_video_engagement w now resp g)) = check_count g"
    "error_count (snd (get_video_engagement w now resp g)) = error_count g"
    "counter_step (base_labels w) (api_errors g)
       (api_errors (snd (get_video_engagement w now resp g)))"
    "registered_streams (snd (get_video_engagement w now resp g)) = registered_streams g"
    using t c
    by (auto simp: get_video_engagement_def counter_step_inc counter_step_refl
        split: sum.splits)
qed

lemma channel_try_counters:
  assumes "get_channel_info_try w now resp g = (r, g')"
  shows "check_count g' = check_count g" "error_count g' = error_count g"
    "api_errors g' = api_errors g" "registered_streams g' = registered_streams g"
  using assms
  by (auto simp: get_channel_info_try_def Let_def
      split: sum.splits prod.splits option.splits if_splits)

lemma channel_steps:
  "check_count (snd (get_channel_info w now resp g)) = check_count g"
  "error_count (snd (get_channel_info w now resp g)) = error_count g"
  "counter_step (base_labels w) (api_errors g)
     (api_errors (snd (get_channel_info w now resp g)))"
  "registered_streams (snd (get_channel_info w now resp g)) = registered_streams g"
proof -
  obtain r g' where t: "get_channel_info_try w now resp g = (r, g')"
    by (cases "get_channel_info_try w now resp g")
  note c = channel_try_counters [OF t]
  show "check_count (snd (get_channel_info w now resp g)) = check_count g"
    "error_count (snd (get_channel_info w now resp g)) = error_count g"
    "counter_step (base_labels w) (api_errors g)
       (api_errors (snd (get_channel_info w now resp g)))"
    "registered_streams (snd (get_channel_info w now resp g)) = registered_streams g"
    using t c
    by (auto simp: get_channel_info_def counter_step_inc counter_step_refl split: sum.splits)
qed

lemma register_steps:
  "counter_step (cid, sname, vid, cname) (check_count g)
     (check_count (register_stream cid vid sname cname env g))"
  "counter_step (cid, sname, vid, cname) (error_count g)
     (error_count (register_stream cid vid sname cname env g))"
  "counter_step (cid, sname, vid, cname) (api_errors g)
     (api_errors (register_stream cid vid sname cname env g))"
  by (simp_all add: register_stream_def initialize_counters_def Let_def
      counter_step_refl counter_step_inc)

lemma construct_steps:
  "counter_step (cid, sname, vid, cname) (check_count g)
     (check_count (snd (youtube_monitor_init cid vid key sname cname env (Some g))))"
  "counter_step (cid, sname, vid, cname) (error_count g)
     (error_count (snd (youtube_monitor_init cid vid key sname cname env (Some g))))"
  "counter_step (cid, sname, vid, cname) (api_errors g)
     (api_errors (snd (youtube_monitor_init cid vid key sname cname env (Some g))))"
  by (simp_all add: youtube_monitor_init_def Let_def register_steps)

lemma apply_op_steps:
  "counter_step (op_series x) (check_count g) (check_count (apply_op x g))"
  "counter_step (op_series x) (error_count g) (error_count (apply_op x g))"
  "counter_step (op_series x) (api_errors g) (api_errors (apply_op x g))"
proof -
  show "counter_step (op_series x) (check_count g) (check_count (apply_op x g))"
  proof (cases x)
    case (Call c w now resp)
    then show ?thesis
      by (cases c) (simp_all add: snd_perform status_steps engagement_steps channel_steps
          counter_step_refl del: perform.simps)
  qed (simp_all add: register_steps construct_steps)
  show "counter_step (op_series x) (error_count g) (error_count (apply_op x g))"
  proof (cases x)
    case (Call c w now resp)
    then show ?thesis
      by (cases c) (simp_all add: snd_perform status_steps engagement_steps channel_steps
          counter_step_refl del: perform.simps)
  qed (simp_all add: register_steps construct_steps)
  show "counter_step (op_series x) (api_errors g) (api_errors (apply_op x g))"
  proof (cases x)
    case (Call c w now resp)
    then show ?thesis
      by (cases c) (simp_all add: snd_perform status_steps engagement_steps channel_steps
          counter_step_refl del: perform.simps)
  qed (simp_all add: register_steps construct_steps)
qed

lemma apply_op_mono:
  "counter_value (check_count g) l \<le> counter_value (check_count (apply_op x g)) l"
  "counter_value (error_count g) l \<le> counter_value (error_count (apply_op x g)) l"
  "counter_value (api_errors g) l \<le> counter_value (api_errors (apply_op x g)) l"
  by (rule counter_step_mono, rule apply_op_steps)+

lemma check_count_apply_op:
  "counter_value (check_count (apply_op x g)) l =
   counter_value (check_count g) l + (if checks_series l x then 1 else 0)"
proof (cases x)
  case (Register cid vid sname cname env)
  then show ?thesis
    by (simp add: register_stream_def initialize_counters_def Let_def counter_value_inc)
next
  case (Construct cid vid key sname cname env)
  then show ?thesis
    by (simp add: youtube_monitor_init_def register_stream_def initialize_counters_def
        Let_def counter_value_inc)
next
  case (Call c w now resp)
  then show ?thesis
    by (cases c) (simp_all add: snd_perform check_count_status engagement_steps channel_steps
        counter_value_inc del: perform.simps)
qed

lemma check_count_run:
  "counter_value (check_count (run ops g)) l =
   counter_value (check_count g) l + int (length (filter (checks_series l) ops))"
  by (induction ops arbitrary: g) (simp_all add: check_count_apply_op del: apply_op.simps)




text \<open>
  Claim C1. Every invocation of \<^verbatim>\<open>check_stream_status\<close> adds exactly one to the monitor's
  \<^verbatim>\<open>stream_check_count\<close> series, whatever the API answers and whether or not the call
  fails. Hence \<open>N\<close> invocations in a row add exactly \<open>N\<close>, and in any sequence of
  operations on the registry the series grows by the number of \<^verbatim>\<open>check_stream_status\<close>
  calls made on it.
\<close>

theorem check_count_heartbeat:
  "counter_value (check_count (snd (check_stream_status w now resp g))) (base_labels w)
     = counter_value (check_count g) (base_labels w) + 1
   \<and> counter_value
        (check_count (run (map (\<lambda>(now, resp). Call CheckStreamStatus w now resp) answers) g))
        (base_labels w)
     = counter_value (check_count g) (base_labels w) + int (length answers)
   \<and> counter_value (check_count (run ops g)) (base_labels w)
     = counter_value (check_count g) (base_labels w)
       + int (length (filter (checks_series (base_labels w)) ops))"
proof -
  have "filter (checks_series (base_labels w))
          (map (\<lambda>(now, resp). Call CheckStreamStatus w now resp) answers)
        = map (\<lambda>(now, resp). Call CheckStreamStatus w now resp) answers"
    by (induction answers) auto
  then have "length (filter (checks_series (base_labels w))
          (map (\<lambda>(now, resp). Call CheckStreamStatus w now resp) answers)) = length answers"
    by simp
  then show ?thesis
    by (simp add: check_count_status counter_value_inc check_count_run)
qed

theorem check_count_heartbeat_witness:
  "counter_value
     (check_count (run (map (\<lambda>(now, resp). Call CheckStreamStatus example_monitor now resp)
        [(''t1'', Inr live_response), (''t2'', Inl RequestException),
         (''t3'', Inr offline_response), (''t4'', Inr JNull)]) example_registry))
     (base_labels example_monitor) = 4"
proof -
  have "counter_value (check_count example_registry) (base_labels example_monitor) = 0"
    by code_simp
  with check_count_heartbeat [of example_monitor "''t1''" "Inr live_response" example_registry
      "[(''t1'', Inr live_response), (''t2'', Inl RequestException),
        (''t3'', Inr offline_response), (''t4'', Inr JNull)]" "[]"]
  show ?thesis by simp
qed





text \<open>
  Claim C6. The three counters never decrease: after any sequence of operations on the
  registry (registrations, constructions of monitors and calls of their three methods,
  successful or not, by any monitors) every series of \<^verbatim>\<open>stream_check_count\<close>,
  \<^verbatim>\<open>stream_error_count\<close> and \<^verbatim>\<open>api_error_count\<close> shows at least the value it showed before.
\<close>

theorem counters_monotonic:
  "counter_value (check_count g) l \<le> counter_value (check_count (run ops g)) l
   \<and> counter_value (error_count g) l \<le> counter_value (error_count (run ops g)) l
   \<and> counter_value (api_errors g) l \<le> counter_value (api_errors (run ops g)) l"
proof (induction ops arbitrary: g)
  case Nil
  show ?case by simp
next
  case (Cons x ops)
  from Cons [of "apply_op x g"] apply_op_mono [of g l x] show ?case
    by (simp del: apply_op.simps)
qed

theorem counters_monotonic_witness:
  "counter_value (error_count example_registry) (base_labels example_monitor)
     \<le> counter_value
         (error_count
           (run [Call CheckStreamStatus example_monitor ''t1'' (Inr offline_response),
                 Register ''UC1'' ''vid1'' ''CHANNEL-1'' ''TEST_Master'' ''Production'',
                 Call GetChannelInfo example_monitor ''t1'' (Inl RequestException)]
              example_registry))
         (base_labels example_monitor)"
  using counters_monotonic [of example_registry "base_labels example_monitor"
      "[Call CheckStreamStatus example_monitor ''t1'' (Inr offline_response),
        Register ''UC1'' ''vid1'' ''CHANNEL-1'' ''TEST_Master'' ''Production'',
        Call GetChannelInfo example_monitor ''t1'' (Inl RequestException)]"]
  by simp

section \<open>Registration\<close>

lemma registered_after_register:
  "stream_key cid vid sname \<in> registered_streams (register_stream cid vid sname cname env g)"
  by (simp add: register_stream_def initialize_counters_def Let_def)

lemma register_stream_registered:
  "stream_key cid vid sname \<in> registered_streams g \<Longrightarrow>
   register_stream cid vid sname cname env g = g"
  by (simp add: register_stream_def)

text \<open>
  Claim C10. The key is built from \<open>channel_id\<close>, \<open>video_id\<close> and \<open>stream_name\<close> only, so a
  second \<^verbatim>\<open>register_stream\<close> call with these three and another \<open>channel_name\<close> or
  \<open>environment\<close> leaves the whole registry as the first call left it. No series with the
  new label values is created: such a series is what it was before the first call.
\<close>

theorem register_stream_same_key:
  "register_stream cid vid sname cname' env' (register_stream cid vid sname cname env g)
     = register_stream cid vid sname cname env g
   \<and> ((cname', env') \<noteq> (cname, env) \<longrightarrow>
        stream_status
          (register_stream cid vid sname cname' env' (register_stream cid vid sname cname env g))
          (cid, sname, vid, cname', env')
        = stream_status g (cid, sname, vid, cname', env'))
   \<and> (cname' \<noteq> cname \<longrightarrow>
        (\<forall>family \<in> {stream_viewers, video_views, video_likes, video_comments, video_favorites,
                     engagement_rate}.
           family
             (register_stream cid vid sname cname' env' (register_stream cid vid sname cname env g))
             (cid, sname, vid, cname')
           = family g (cid, sname, vid, cname'))
        \<and> channel_subscribers
            (register_stream cid vid sname cname' env' (register_stream cid vid sname cname env g))
            (cid, sname, cname')
          = channel_subscribers g (cid, sname, cname')
        \<and> (\<forall>family \<in> {check_count, error_count, api_errors}.
             family
               (register_stream cid vid sname cname' env'
                  (register_stream cid vid sname cname env g))
               (cid, sname, vid, cname')
             = family g (cid, sname, vid, cname')))"
proof -
  have same: "register_stream cid vid sname cname' env' (register_stream cid vid sname cname env g)
      = register_stream cid vid sname cname env g"
    by (rule register_stream_registered) (rule registered_after_register)
  show ?thesis
    unfolding same
    by (simp add: register_stream_def initialize_counters_def Let_def inc_def)
qed

theorem register_stream_same_key_witness:
  "register_stream ''UC1'' ''vid1'' ''CHANNEL-1'' ''Renamed'' ''Test''
     (register_stream ''UC1'' ''vid1'' ''CHANNEL-1'' ''TEST_Master'' ''Production''
        youtube_metrics_init)
   = register_stream ''UC1'' ''vid1'' ''CHANNEL-1'' ''TEST_Master'' ''Production''
       youtube_metrics_init
   \<and> stream_status
       (register_stream ''UC1'' ''vid1'' ''CHANNEL-1'' ''Renamed'' ''Test''
         (register_stream ''UC1'' ''vid1'' ''CHANNEL-1'' ''TEST_Master'' ''Production''
            youtube_metrics_init))
       (''UC1'', ''CHANNEL-1'', ''vid1'', ''Renamed'', ''Test'') = None"
proof -
  have fresh: "stream_status youtube_metrics_init
      (''UC1'', ''CHANNEL-1'', ''vid1'', ''Renamed'', ''Test'') = None"
    by (simp add: youtube_metrics_init_def)
  note inst = register_stream_same_key [of "''UC1''" "''vid1''" "''CHANNEL-1''" "''Renamed''"
      "''Test''" "''TEST_Master''" "''Production''" youtube_metrics_init]
  have "(''Renamed'', ''Test'') \<noteq> (''TEST_Master'', ''Production'')"
    by simp
  with inst [THEN conjunct2, THEN conjunct1]
  have "stream_status
       (register_stream ''UC1'' ''vid1'' ''CHANNEL-1'' ''Renamed'' ''Test''
         (register_stream ''UC1'' ''vid1'' ''CHANNEL-1'' ''TEST_Master'' ''Production''
            youtube_metrics_init))
       (''UC1'', ''CHANNEL-1'', ''vid1'', ''Renamed'', ''Test'')
     = stream_status youtube_metrics_init
         (''UC1'', ''CHANNEL-1'', ''vid1'', ''Renamed'', ''Test'')"
    by (rule mp)
  with fresh inst [THEN conjunct1] show ?thesis
    by (simp only:)
qed

section \<open>Engagement and channel information\<close>







lemma first_item_absent:
  assumes "map_of kvs ''items'' = None \<or> (\<exists>v. map_of kvs ''items'' = Some v \<and> \<not> py_truth v)"
  shows "first_item (JObj kvs) = Inr None"
proof -
  have mem: "''items'' \<in> fst ` set kvs \<longleftrightarrow> map_of kvs ''items'' \<noteq> None"
    by (simp add: map_of_eq_None_iff)
  from assms show ?thesis
    by (auto simp: first_item_def and_then_def mem)
qed

text \<open>
  Claim C5, as the code has it. When the response to \<^verbatim>\<open>get_video_engagement\<close> is a JSON
  object without items (no \<^verbatim>\<open>items\<close> key, or an empty or otherwise false value under it),
  nothing is counted as an error and nothing is written: the registry is left exactly as
  it was, so every engagement gauge keeps its last value.
\<close>

theorem engagement_without_items:
  assumes "map_of kvs ''items'' = None \<or> (\<exists>v. map_of kvs ''items'' = Some v \<and> \<not> py_truth v)"
  shows "snd (get_video_engagement w now (Inr (JObj kvs)) g) = g"
  using first_item_absent [OF assms]
  by (simp add: get_video_engagement_def get_video_engagement_try_def and_then_def)

theorem engagement_without_items_witness:
  "(map_of [(''items'', JList [])] ''items'' = None
      \<or> (\<exists>v. map_of [(''items'', JList [])] ''items'' = Some v \<and> \<not> py_truth v))
   \<and> snd (get_video_engagement example_monitor ''t'' (Inr empty_response) polled_registry)
     = polled_registry"
proof -
  have h: "map_of [(''items'', JList [])] ''items'' = None
      \<or> (\<exists>v. map_of [(''items'', JList [])] ''items'' = Some v \<and> \<not> py_truth v)"
    by simp
  from engagement_without_items [OF h, of example_monitor "''t''" polled_registry] h
  show ?thesis by (simp add: empty_response_def)
qed

text \<open>
  Claim C5 as stated, with the engagement fields defaulting to zero, fails: after a poll
  that found 200 views and 10 likes, a response with zero items leaves the gauges at 200
  and 10, not at zero.
\<close>

theorem engagement_without_items_not_zero:
  "video_views
     (snd (get_video_engagement example_monitor ''t'' (Inr empty_response) polled_registry))
     (base_labels example_monitor) = Some 200
   \<and> video_likes
     (snd (get_video_engagement example_monitor ''t'' (Inr empty_response) polled_registry))
     (base_labels example_monitor) = Some 10
   \<and> gauge_value
     (video_views
       (snd (get_video_engagement example_monitor ''t'' (Inr empty_response) polled_registry)))
     (base_labels example_monitor) \<noteq> 0"
  by code_simp



section \<open>The polling loop\<close>




lemma ticks_of_append: "ticks_of c (xs @ ys) = ticks_of c xs @ ticks_of c ys"
  by (simp add: ticks_of_def)




section \<open>First registration\<close>

lemma register_stream_grows:
  "registered_streams g \<subseteq> registered_streams (register_stream cid vid sname cname env g)"
  by (auto simp: register_stream_def initialize_counters_def Let_def)

lemma apply_op_registered:
  "registered_streams g \<subseteq> registered_streams (apply_op x g)"
proof (cases x)
  case (Register cid vid sname cname env)
  then show ?thesis by (simp add: register_stream_grows)
next
  case (Construct cid vid key sname cname env)
  then show ?thesis
    using register_stream_grows [of g cid vid sname cname env]
    by (simp add: youtube_monitor_init_def Let_def)
next
  case (Call c w now resp)
  then show ?thesis
    by (cases c) (simp_all add: snd_perform status_steps engagement_steps channel_steps
        del: perform.simps)
qed

lemma run_registered: "registered_streams g \<subseteq> registered_streams (run ops g)"
proof (induction ops arbitrary: g)
  case Nil
  show ?case by simp
next
  case (Cons x ops)
  from apply_op_registered [of g x] Cons [of "apply_op x g"] show ?case
    by (auto simp del: apply_op.simps)
qed

text \<open>An operation on a registered stream, or one that registers, keeps the invariant.\<close>

lemma apply_op_counters_registered:
  assumes "counters_registered g"
    and "series_key (op_series x) \<in> registered_streams (apply_op x g)"
  shows "counters_registered (apply_op x g)"
  unfolding counters_registered_def
proof
  fix l
  assume "l \<in> dom (check_count (apply_op x g)) \<union> dom (error_count (apply_op x g))
      \<union> dom (api_errors (apply_op x g))"
  with counter_step_dom [OF apply_op_steps(1) [of x g]]
    counter_step_dom [OF apply_op_steps(2) [of x g]]
    counter_step_dom [OF apply_op_steps(3) [of x g]]
  have "l = op_series x
      \<or> l \<in> dom (check_count g) \<union> dom (error_count g) \<union> dom (api_errors g)"
    by blast
  then show "series_key l \<in> registered_streams (apply_op x g)"
  proof
    assume "l = op_series x"
    with assms(2) show ?thesis by simp
  next
    assume "l \<in> dom (check_count g) \<union> dom (error_count g) \<union> dom (api_errors g)"
    with assms(1) have "series_key l \<in> registered_streams g"
      unfolding counters_registered_def by blast
    with apply_op_registered [of g x] show ?thesis by blast
  qed
qed

lemma op_series_registered:
  assumes "constructed ws (x # ops)"
    and "\<forall>w \<in> set ws. series_key (base_labels w) \<in> registered_streams g"
  shows "series_key (op_series x) \<in> registered_streams (apply_op x g)"
proof (cases x)
  case (Register cid vid sname cname env)
  then show ?thesis by (simp add: series_key_def registered_after_register)
next
  case (Construct cid vid key sname cname env)
  then show ?thesis
    by (simp add: series_key_def youtube_monitor_init_def Let_def registered_after_register)
next
  case (Call c w now resp)
  with assms have "series_key (base_labels w) \<in> registered_streams g"
    by simp
  with apply_op_registered [of g x] Call show ?thesis
    by (auto simp del: apply_op.simps)
qed

lemma run_counters_registered:
  assumes "constructed ws ops"
    and "\<forall>w \<in> set ws. series_key (base_labels w) \<in> registered_streams g"
    and "counters_registered g"
  shows "counters_registered (run ops g)"
  using assms
proof (induction ops arbitrary: ws g)
  case Nil
  then show ?case by simp
next
  case (Cons x ops)
  have key: "series_key (op_series x) \<in> registered_streams (apply_op x g)"
    using Cons.prems(1,2) by (rule op_series_registered)
  have inv: "counters_registered (apply_op x g)"
    using Cons.prems(3) key by (rule apply_op_counters_registered)
  have old: "\<forall>w \<in> set ws. series_key (base_labels w) \<in> registered_streams (apply_op x g)"
    using Cons.prems(2) apply_op_registered [of g x] by blast
  show ?case
  proof (cases x)
    case (Register cid vid sname cname env)
    with Cons.prems(1) have "constructed ws ops" by simp
    from Cons.IH [OF this old inv] show ?thesis by simp
  next
    case (Construct cid vid key sname cname env)
    let ?w = "fst (youtube_monitor_init cid vid key sname cname env None)"
    from Construct Cons.prems(1) have c: "constructed (?w # ws) ops" by simp
    have "base_labels ?w = op_series x"
      using Construct by (simp add: youtube_monitor_init_def Let_def base_labels_def)
    with key old
    have "\<forall>w \<in> set (?w # ws). series_key (base_labels w) \<in> registered_streams (apply_op x g)"
      by simp
    from Cons.IH [OF c this inv] show ?thesis by simp
  next
    case (Call c w now resp)
    with Cons.prems(1) have "constructed ws ops" by simp
    from Cons.IH [OF this old inv] show ?thesis by simp
  qed
qed

lemma reachable_counters_registered:
  "constructed [] ops \<Longrightarrow> counters_registered (run ops youtube_metrics_init)"
  by (rule run_counters_registered [of "[]"])
    (simp_all add: counters_registered_def youtube_metrics_init_def)

lemma unregistered_counters_absent:
  assumes "counters_registered g" and "stream_key cid vid sname \<notin> registered_streams g"
  shows "check_count g (cid, sname, vid, cname) = None"
    and "error_count g (cid, sname, vid, cname) = None"
    and "api_errors g (cid, sname, vid, cname) = None"
proof -
  have "(cid, sname, vid, cname)
      \<notin> dom (check_count g) \<union> dom (error_count g) \<union> dom (api_errors g)"
  proof
    assume "(cid, sname, vid, cname)
        \<in> dom (check_count g) \<union> dom (error_count g) \<union> dom (api_errors g)"
    with assms(1) have "series_key (cid, sname, vid, cname) \<in> registered_streams g"
      unfolding counters_registered_def by blast
    with assms(2) show False by (simp add: series_key_def)
  qed
  then show "check_count g (cid, sname, vid, cname) = None"
    and "error_count g (cid, sname, vid, cname) = None"
    and "api_errors g (cid, sname, vid, cname) = None"
    by (auto simp: domIff)
qed

text \<open>
  Claim C4. Take any registry the program can reach: the result of a sequence of
  operations on a new registry, each call being on a monitor constructed before. The first
  \<^verbatim>\<open>register_stream\<close> call for a key sets each of the eight gauge series of the entity to 0,
  makes the three counter series present with value 0, and marks the key registered. A
  second call with the same arguments changes nothing, and neither does any later call,
  whatever operations came in between.
\<close>

theorem register_stream_first_call:
  assumes "constructed [] ops"
    and "stream_key cid vid sname \<notin> registered_streams (run ops youtube_metrics_init)"
  shows "stream_status (register_stream cid vid sname cname env (run ops youtube_metrics_init))
        (cid, sname, vid, cname, env) = Some 0
    \<and> stream_viewers (register_stream cid vid sname cname env (run ops youtube_metrics_init))
        (cid, sname, vid, cname) = Some 0
    \<and> video_views (register_stream cid vid sname cname env (run ops youtube_metrics_init))
        (cid, sname, vid, cname) = Some 0
    \<and> video_likes (register_stream cid vid sname cname env (run ops youtube_metrics_init))
        (cid, sname, vid, cname) = Some 0
    \<and> video_comments (register_stream cid vid sname cname env (run ops youtube_metrics_init))
        (cid, sname, vid, cname) = Some 0
    \<and> video_favorites (register_stream cid vid sname cname env (run ops youtube_metrics_init))
        (cid, sname, vid, cname) = Some 0
    \<and> engagement_rate (register_stream cid vid sname cname env (run ops youtube_metrics_init))
        (cid, sname, vid, cname) = Some 0
    \<and> channel_subscribers (register_stream cid vid sname cname env (run ops youtube_metrics_init))
        (cid, sname, cname) = Some 0
    \<and> check_count (register_stream cid vid sname cname env (run ops youtube_metrics_init))
        (cid, sname, vid, cname) = Some 0
    \<and> error_count (register_stream cid vid sname cname env (run ops youtube_metrics_init))
        (cid, sname, vid, cname) = Some 0
    \<and> api_errors (register_stream cid vid sname cname env (run ops youtube_metrics_init))
        (cid, sname, vid, cname) = Some 0
    \<and> stream_key cid vid sname
        \<in> registered_streams (register_stream cid vid sname cname env (run ops youtube_metrics_init))
    \<and> register_stream cid vid sname cname env
          (register_stream cid vid sname cname env (run ops youtube_metrics_init))
        = register_stream cid vid sname cname env (run ops youtube_metrics_init)
    \<and> register_stream cid vid sname cname env
          (run later (register_stream cid vid sname cname env (run ops youtube_metrics_init)))
        = run later (register_stream cid vid sname cname env (run ops youtube_metrics_init))"
proof -
  let ?g = "run ops youtube_metrics_init"
  let ?g1 = "register_stream cid vid sname cname env ?g"
  note absent = unregistered_counters_absent
    [OF reachable_counters_registered [OF assms(1)] assms(2), of cname]
  have gauges: "stream_status ?g1 (cid, sname, vid, cname, env) = Some 0"
    "stream_viewers ?g1 (cid, sname, vid, cname) = Some 0"
    "video_views ?g1 (cid, sname, vid, cname) = Some 0"
    "video_likes ?g1 (cid, sname, vid, cname) = Some 0"
    "video_comments ?g1 (cid, sname, vid, cname) = Some 0"
    "video_favorites ?g1 (cid, sname, vid, cname) = Some 0"
    "engagement_rate ?g1 (cid, sname, vid, cname) = Some 0"
    "channel_subscribers ?g1 (cid, sname, cname) = Some 0"
    using assms(2) by (simp_all add: register_stream_def initialize_counters_def Let_def)
  have counters: "check_count ?g1 (cid, sname, vid, cname) = Some 0"
    "error_count ?g1 (cid, sname, vid, cname) = Some 0"
    "api_errors ?g1 (cid, sname, vid, cname) = Some 0"
    using assms(2) absent
    by (simp_all add: register_stream_def initialize_counters_def Let_def inc_def
        counter_value_def)
  have key: "stream_key cid vid sname \<in> registered_streams ?g1"
    by (rule registered_after_register)
  have again: "register_stream cid vid sname cname env ?g1 = ?g1"
    using key by (rule register_stream_registered)
  have "stream_key cid vid sname \<in> registered_streams (run later ?g1)"
    using key run_registered [of ?g1 later] by blast
  then have later: "register_stream cid vid sname cname env (run later ?g1) = run later ?g1"
    by (rule register_stream_registered)
  from gauges counters key again later show ?thesis
    by (intro conjI)
qed

theorem register_stream_first_call_witness:
  "constructed []
     [Construct ''UC1'' ''vid1'' ''key1'' ''CHANNEL-1'' ''TEST_Master'' ''Production'',
      Call CheckStreamStatus example_monitor ''t'' (Inl RequestException)]
   \<and> stream_key ''UC2'' ''vid2'' ''CHANNEL-2''
       \<notin> registered_streams
           (run [Construct ''UC1'' ''vid1'' ''key1'' ''CHANNEL-1'' ''TEST_Master'' ''Production'',
                 Call CheckStreamStatus example_monitor ''t'' (Inl RequestException)]
              youtube_metrics_init)
   \<and> check_count
       (register_stream ''UC2'' ''vid2'' ''CHANNEL-2'' ''TEST_Backup'' ''Production''
          (run [Construct ''UC1'' ''vid1'' ''key1'' ''CHANNEL-1'' ''TEST_Master'' ''Production'',
                Call CheckStreamStatus example_monitor ''t'' (Inl RequestException)]
             youtube_metrics_init))
       (''UC2'', ''CHANNEL-2'', ''vid2'', ''TEST_Backup'') = Some 0
   \<and> stream_status
       (register_stream ''UC2'' ''vid2'' ''CHANNEL-2'' ''TEST_Backup'' ''Production''
          (run [Construct ''UC1'' ''vid1'' ''key1'' ''CHANNEL-1'' ''TEST_Master'' ''Production'',
                Call CheckStreamStatus example_monitor ''t'' (Inl RequestException)]
             youtube_metrics_init))
       (''UC2'', ''CHANNEL-2'', ''vid2'', ''TEST_Backup'', ''Production'') = Some 0"
proof -
  have c: "constructed []
     [Construct ''UC1'' ''vid1'' ''key1'' ''CHANNEL-1'' ''TEST_Master'' ''Production'',
      Call CheckStreamStatus example_monitor ''t'' (Inl RequestException)]"
    by code_simp
  have k: "stream_key ''UC2'' ''vid2'' ''CHANNEL-2''
       \<notin> registered_streams
           (run [Construct ''UC1'' ''vid1'' ''key1'' ''CHANNEL-1'' ''TEST_Master'' ''Production'',
                 Call CheckStreamStatus example_monitor ''t'' (Inl RequestException)]
              youtube_metrics_init)"
    by code_simp
  from register_stream_first_call [OF c k, of "''TEST_Backup''" "''Production''" "[]"] c k
  show ?thesis by blast
qed

end
